theory Spec2Isabelle
  imports Main "HOL-Library.Sublist"
begin

section \<open>Go values used by the proxy\<close>

text \<open>
  The program is a single Go file, \<^verbatim>\<open>main.go\<close>. Go strings are byte sequences, so they
  are \<open>string\<close> (lists of 8-bit characters) here. A Go \<^verbatim>\<open>error\<close> result is an
  \<open>error option\<close> (\<open>None\<close> is \<^verbatim>\<open>nil\<close>); a run-time panic is the left injection of a sum.
\<close>

datatype panic = IndexOutOfRange | NilPointerDereference | InvalidWriteHeaderCode

datatype error = EOF | ErrShortWrite | ErrInvalidWrite | Err string

type_synonym conn = nat

text \<open>Indexing a slice, \<^verbatim>\<open>data[i]\<close>: Go panics when the index is out of range.\<close>

definition index :: "'a list \<Rightarrow> nat \<Rightarrow> panic + 'a" where
  "index data i = (if i < length data then Inr (data ! i) else Inl IndexOutOfRange)"

text \<open>
  \<^verbatim>\<open>strings.Split(s, sep)\<close> for a separator of one byte, which is how \<^verbatim>\<open>parseProxyURL\<close>
  calls it (\<^verbatim>\<open>"@"\<close>): the pieces of \<open>s\<close> between the separators, in order; a string
  without the separator is the only piece, and the empty string gives one empty piece.
\<close>

fun strings_Split :: "string \<Rightarrow> char \<Rightarrow> string list" where
  "strings_Split [] sep = [[]]"
| "strings_Split (c # cs) sep =
     (if c = sep then [] # strings_Split cs sep
      else (case strings_Split cs sep of
              [] \<Rightarrow> [[c]]
            | piece # pieces \<Rightarrow> (c # piece) # pieces))"

subsection \<open>\<^verbatim>\<open>base64.StdEncoding.EncodeToString\<close>\<close>

text \<open>
  The standard alphabet of RFC 4648 with \<open>=\<close> padding. As in Go's encoder, three input
  bytes form a 24-bit value that is cut into four 6-bit digits; a remainder of one or two
  bytes is padded to four output characters.
\<close>

definition encodeStd :: string where
  "encodeStd = ''ABCDEFGHIJKLMNOPQRSTUVWXYZabcdefghijklmnopqrstuvwxyz0123456789+/''"

definition enc :: "nat \<Rightarrow> char" where
  "enc v = encodeStd ! (v mod 64)"

fun EncodeToString :: "string \<Rightarrow> string" where
  "EncodeToString (a # b # c # rest) =
     (let val = of_char a * 65536 + of_char b * 256 + (of_char c :: nat)
      in [enc (val div 262144), enc (val div 4096), enc (val div 64), enc val])
     @ EncodeToString rest"
| "EncodeToString [a, b] =
     (let val = of_char a * 65536 + of_char b * (256 :: nat)
      in [enc (val div 262144), enc (val div 4096), enc (val div 64), CHR ''=''])"
| "EncodeToString [a] =
     (let val = of_char a * (65536 :: nat)
      in [enc (val div 262144), enc (val div 4096), CHR ''='', CHR ''=''])"
| "EncodeToString [] = []"

text \<open>
  The program only encodes. The decoder below, for the same alphabet and padding, is there to
  state that the encoding is the reversible one: \<open>position\<close> is the index of a character in
  the alphabet, and four characters give back three, two or one bytes.
\<close>

fun position :: "'a \<Rightarrow> 'a list \<Rightarrow> nat" where
  "position x [] = 0"
| "position x (y # ys) = (if x = y then 0 else Suc (position x ys))"

definition dec :: "char \<Rightarrow> nat" where
  "dec c = position c encodeStd"

fun DecodeString :: "string \<Rightarrow> string" where
  "DecodeString (a # b # c # d # rest) =
     (let val = dec a * 262144 + dec b * 4096
                 + (if c = CHR ''='' then 0 else dec c) * 64
                 + (if d = CHR ''='' then 0 else dec d)
      in if c = CHR ''='' then [char_of (val div 65536)]
         else if d = CHR ''='' then [char_of (val div 65536), char_of (val div 256)]
         else [char_of (val div 65536), char_of (val div 256), char_of val] @ DecodeString rest)"
| "DecodeString _ = []"

section \<open>The upstream-spec resolver\<close>

text \<open>
  \<^verbatim>\<open>parseProxyURL\<close> (main.go, lines 33 to 46). The result triple is
  \<open>(server, user, err)\<close> in the order of the Go \<^verbatim>\<open>return\<close>. The two variables start as
  empty strings and stay so when the split has neither one nor two pieces.
\<close>

definition parseProxyURL :: "string \<Rightarrow> panic + (string \<times> string \<times> error option)" where
  "parseProxyURL proxyURL =
     (let data = strings_Split proxyURL CHR ''@'' in
      if length data = 2 then
        (case index data 0 of
           Inl p \<Rightarrow> Inl p
         | Inr user \<Rightarrow>
             (case index data 1 of
                Inl p \<Rightarrow> Inl p
              | Inr server \<Rightarrow> Inr (server, user, None)))
      else if length data = 1 then
        (case index data 0 of
           Inl p \<Rightarrow> Inl p
         | Inr server \<Rightarrow> Inr (server, [], None))
      else Inr ([], [], None))"

text \<open>
  The resolver as the specification words it (section 4.1): split on the last \<open>@\<close> into a
  credential segment and an address segment; without an \<open>@\<close> the credentials are absent
  (the empty string) and the whole string is the address. \<open>split_last_at\<close> finds the last
  \<open>@\<close> and returns what is before and after it.
\<close>

fun split_last_at :: "string \<Rightarrow> (string \<times> string) option" where
  "split_last_at [] = None"
| "split_last_at (c # cs) =
     (case split_last_at cs of
        Some (before, after) \<Rightarrow> Some (c # before, after)
      | None \<Rightarrow> if c = CHR ''@'' then Some ([], cs) else None)"

definition spec_resolver :: "string \<Rightarrow> string \<times> string" where
  "spec_resolver s =
     (case split_last_at s of
        None \<Rightarrow> (s, [])
      | Some (credentials, address) \<Rightarrow> (address, credentials))"

section \<open>Requests, the environment and traces\<close>

record URL =
  Scheme :: string
  URLHost :: string
  Path :: string
  RawQuery :: string

record Request =
  Method :: string
  Host :: string
  ReqURL :: URL
  Header :: "(string \<times> string) list"
  Body :: string

datatype transport = DefaultTransport | ProxyTransport

text \<open>
  What a handler does to the outside world, in order: dialling (address and, for
  \<^verbatim>\<open>net.DialTimeout\<close>, the timeout in nanoseconds), writing to a connection, reading the
  upstream's response, the two calls on the response writer (\<^verbatim>\<open>w.WriteHeader(code)\<close> and
  \<^verbatim>\<open>http.Error(w, msg, code)\<close>), asking for the hijack, starting a relay goroutine
  \<^verbatim>\<open>go transfer(destination, source)\<close>, closing a connection, and handing a request to
  an HTTP transport.
\<close>

datatype event =
    Dial string "nat option"
  | ConnWrite conn string
  | ReadResponse conn
  | WriteHeader nat
  | HttpError string nat
  | HijackCall
  | GoTransfer conn conn
  | Close conn
  | RoundTrip transport Request

text \<open>
  The outcome of taking over the client connection: the response writer is no
  \<^verbatim>\<open>http.Hijacker\<close>, or \<^verbatim>\<open>Hijack()\<close> returns an error (with its text), or it returns the
  client's connection.
\<close>

datatype hijack_result = NotHijacker | HijackError string | Hijacked conn

text \<open>
  The environment of one request: the results of the library calls that depend on the
  network and on the HTTP server. \<open>http_ReadResponse\<close> gives the status code that the
  upstream answers on a connection after the given bytes were written to it.
  \<open>lib_rewrite\<close> is what the reverse proxy's director does to a request for a target that
  is present.
\<close>

record env =
  net_Dial :: "string \<Rightarrow> error + conn"
  net_DialTimeout :: "string \<Rightarrow> nat \<Rightarrow> error + conn"
  http_ReadResponse :: "conn \<Rightarrow> string \<Rightarrow> error + nat"
  hijacker :: hijack_result
  lib_rewrite :: "Request \<Rightarrow> URL \<Rightarrow> Request"

abbreviation StatusOK :: nat where "StatusOK \<equiv> 200"
abbreviation StatusInternalServerError :: nat where "StatusInternalServerError \<equiv> 500"
abbreviation StatusServiceUnavailable :: nat where "StatusServiceUnavailable \<equiv> 503"

definition time_Second :: nat where
  "time_Second = 1000000000"

definition CRLF :: string where
  "CRLF = [CHR 0x0D, CHR 0x0A]"

text \<open>
  A handler returns with the trace of what it did, or it panics after a trace. The HTTP server
  recovers the panic of a handler and drops the client's connection.
\<close>

type_synonym outcome = "(panic \<times> event list) + event list"

definition trace_of :: "outcome \<Rightarrow> event list" where
  "trace_of res = (case res of Inl (p, tr) \<Rightarrow> tr | Inr tr \<Rightarrow> tr)"

subsection \<open>The response writer\<close>

text \<open>
  \<^verbatim>\<open>w.WriteHeader(code)\<close> on a response whose header is not yet written checks the code
  first and panics unless it has three digits (\<^verbatim>\<open>checkWriteHeaderCode\<close>);
  \<^verbatim>\<open>http.Error(w, msg, code)\<close> calls it and then writes the message as the body. A code from
  100 to 199 other than 101 is sent as an interim response and leaves the header unwritten.
  The first other code is the status of the response, and later calls are ignored. The body
  that \<^verbatim>\<open>http.Error\<close> writes after an interim response writes the header with 200.
  \<open>client_status\<close> is the status of the response that the client receives for the calls of
  a trace; \<open>statuses\<close> lists the codes of the calls as they were made.
\<close>

definition checkWriteHeaderCode :: "nat \<Rightarrow> panic option" where
  "checkWriteHeaderCode code =
     (if code < 100 \<or> 999 < code then Some InvalidWriteHeaderCode else None)"

definition informational :: "nat \<Rightarrow> bool" where
  "informational code \<longleftrightarrow> 100 \<le> code \<and> code \<le> 199 \<and> code \<noteq> 101"

fun client_status :: "event list \<Rightarrow> nat option" where
  "client_status [] = None"
| "client_status (WriteHeader code # es) =
     (if informational code then client_status es else Some code)"
| "client_status (HttpError msg code # es) =
     (if informational code then Some StatusOK else Some code)"
| "client_status (e # es) = client_status es"

subsection \<open>Reading a trace\<close>

text \<open>
  The status codes given to the response writer, the relay directions started (destination
  first, as the arguments of \<^verbatim>\<open>transfer\<close>), the connections closed, the dials made and the
  messages written to connections, each in the order of the trace.
\<close>

fun statuses :: "event list \<Rightarrow> nat list" where
  "statuses [] = []"
| "statuses (WriteHeader code # es) = code # statuses es"
| "statuses (HttpError msg code # es) = code # statuses es"
| "statuses (e # es) = statuses es"

fun relays :: "event list \<Rightarrow> (conn \<times> conn) list" where
  "relays [] = []"
| "relays (GoTransfer d s # es) = (d, s) # relays es"
| "relays (e # es) = relays es"

fun closed :: "event list \<Rightarrow> conn list" where
  "closed [] = []"
| "closed (Close c # es) = c # closed es"
| "closed (e # es) = closed es"

fun dialled :: "event list \<Rightarrow> (string \<times> nat option) list" where
  "dialled [] = []"
| "dialled (Dial a t # es) = (a, t) # dialled es"
| "dialled (e # es) = dialled es"

fun sent :: "event list \<Rightarrow> (conn \<times> string) list" where
  "sent [] = []"
| "sent (ConnWrite c bs # es) = (c, bs) # sent es"
| "sent (e # es) = sent es"

section \<open>The tunnel handlers\<close>

text \<open>Lines 77 to 81: the optional authentication header line.\<close>

definition authorizationHeader :: "string \<Rightarrow> string" where
  "authorizationHeader auth =
     (if auth \<noteq> [] then ''Proxy-Authorization: Basic '' @ EncodeToString auth @ CRLF
      else [])"

text \<open>Line 84: \<^verbatim>\<open>fmt.Sprintf("CONNECT %s HTTP/1.1\r\nHost: %s\r\n%s\r\n", ...)\<close>.\<close>

definition connectRequest :: "string \<Rightarrow> string \<Rightarrow> string" where
  "connectRequest host auth =
     ''CONNECT '' @ host @ '' HTTP/1.1'' @ CRLF @ ''Host: '' @ host @ CRLF
       @ authorizationHeader auth @ CRLF"

text \<open>
  \<^verbatim>\<open>handleProxyTunneling\<close> (lines 62 to 116), with the global \<^verbatim>\<open>proxyURL\<close> as a
  parameter. Every \<^verbatim>\<open>return\<close> of the source is one branch; the trace of a branch lists
  the calls made on the way to it. The call of \<^verbatim>\<open>http.Error\<close> on line 92 passes the status
  code that the upstream sent, which \<^verbatim>\<open>http.ReadResponse\<close> accepts whenever it has three
  digits, so this call can panic. The other calls of \<^verbatim>\<open>http.Error\<close> pass the constants 500
  and 503, or come after \<^verbatim>\<open>w.WriteHeader(200)\<close>, and cannot.
\<close>

definition handleProxyTunneling :: "env \<Rightarrow> string \<Rightarrow> Request \<Rightarrow> outcome" where
  "handleProxyTunneling e proxyURL r =
     (case parseProxyURL proxyURL of
        Inl p \<Rightarrow> Inl (p, [])
      | Inr (proxyStr, auth, err) \<Rightarrow>
          (case err of
             Some _ \<Rightarrow>
               Inr [HttpError ''Failed to parse proxy URL'' StatusInternalServerError]
           | None \<Rightarrow>
               (case net_Dial e proxyStr of
                  Inl _ \<Rightarrow>
                    Inr [Dial proxyStr None,
                         HttpError ''Failed to connect to the second proxy''
                           StatusServiceUnavailable]
                | Inr proxyConn \<Rightarrow>
                    (let request = connectRequest (Host r) auth;
                         handshake = [Dial proxyStr None, ConnWrite proxyConn request,
                                      ReadResponse proxyConn]
                     in case http_ReadResponse e proxyConn request of
                          Inl _ \<Rightarrow>
                            Inr (handshake @
                              [HttpError ''Failed to read response from the second proxy''
                                 StatusServiceUnavailable])
                        | Inr StatusCode \<Rightarrow>
                            if StatusCode \<noteq> 200 then
                              (case checkWriteHeaderCode StatusCode of
                                 Some p \<Rightarrow> Inl (p, handshake)
                               | None \<Rightarrow>
                                   Inr (handshake @
                                     [HttpError
                                        ''Failed to connect to the host through the second proxy''
                                        StatusCode]))
                            else
                              (case hijacker e of
                                 NotHijacker \<Rightarrow>
                                   Inr (handshake @
                                     [WriteHeader StatusOK,
                                      HttpError ''Hijacking not supported''
                                        StatusInternalServerError])
                               | HijackError msg \<Rightarrow>
                                   Inr (handshake @
                                     [WriteHeader StatusOK, HijackCall,
                                      HttpError msg StatusServiceUnavailable])
                               | Hijacked clientConn \<Rightarrow>
                                   Inr (handshake @
                                     [WriteHeader StatusOK, HijackCall,
                                      GoTransfer clientConn proxyConn,
                                      GoTransfer proxyConn clientConn]))))))"

text \<open>\<^verbatim>\<open>handleDirectTunneling\<close> (lines 119 to 141).\<close>

definition handleDirectTunneling :: "env \<Rightarrow> Request \<Rightarrow> outcome" where
  "handleDirectTunneling e r =
     (let timeout = 10 * time_Second in
      case net_DialTimeout e (Host r) timeout of
        Inl _ \<Rightarrow>
          Inr [Dial (Host r) (Some timeout),
               HttpError ''Failed to connect to the host'' StatusServiceUnavailable]
      | Inr destConn \<Rightarrow>
          (case hijacker e of
             NotHijacker \<Rightarrow>
               Inr [Dial (Host r) (Some timeout), WriteHeader StatusOK,
                    HttpError ''Hijacking not supported'' StatusInternalServerError]
           | HijackError msg \<Rightarrow>
               Inr [Dial (Host r) (Some timeout), WriteHeader StatusOK, HijackCall,
                    HttpError msg StatusServiceUnavailable]
           | Hijacked clientConn \<Rightarrow>
               Inr [Dial (Host r) (Some timeout), WriteHeader StatusOK, HijackCall,
                    GoTransfer destConn clientConn,
                    GoTransfer clientConn destConn]))"

section \<open>The forward handlers\<close>

text \<open>
  The \<^verbatim>\<open>Proxy\<close> function of \<^verbatim>\<open>proxyTransport\<close> (lines 50 to 57); \<open>url_Parse\<close> stands for
  \<^verbatim>\<open>url.Parse\<close>, whose pair of results is returned as it is.
\<close>

definition proxyTransport_Proxy ::
    "(string \<Rightarrow> 'u option \<times> error option) \<Rightarrow> string \<Rightarrow> panic + ('u option \<times> error option)"
where
  "proxyTransport_Proxy url_Parse proxyURL =
     (case parseProxyURL proxyURL of
        Inl p \<Rightarrow> Inl p
      | Inr (proxyStr, _, err) \<Rightarrow>
          (case err of
             Some er \<Rightarrow> Inr (None, Some er)
           | None \<Rightarrow> Inr (url_Parse proxyStr)))"

text \<open>
  \<^verbatim>\<open>httputil.NewSingleHostReverseProxy(target)\<close> returns a reverse proxy whose director
  rewrites the scheme, host, path and query of each request from the fields of
  \<open>target\<close>, a pointer. Both handlers pass \<^verbatim>\<open>nil\<close>, so the pointer is an \<open>option\<close>: reading a
  field of \<open>None\<close> is Go's nil pointer dereference. \<^verbatim>\<open>ServeHTTP\<close> runs the director on the
  request and only then hands the rewritten request to the transport.
\<close>

record ReverseProxy =
  Director :: "Request \<Rightarrow> panic + Request"
  Transport :: transport

definition rewriteRequestURL :: "env \<Rightarrow> Request \<Rightarrow> URL option \<Rightarrow> panic + Request" where
  "rewriteRequestURL e req target =
     (case target of
        None \<Rightarrow> Inl NilPointerDereference
      | Some t \<Rightarrow> Inr (lib_rewrite e req t))"

definition NewSingleHostReverseProxy :: "env \<Rightarrow> URL option \<Rightarrow> ReverseProxy" where
  "NewSingleHostReverseProxy e target =
     \<lparr>Director = (\<lambda>req. rewriteRequestURL e req target), Transport = DefaultTransport\<rparr>"

definition ServeHTTP :: "ReverseProxy \<Rightarrow> Request \<Rightarrow> outcome" where
  "ServeHTTP proxy r =
     (case Director proxy r of
        Inl p \<Rightarrow> Inl (p, [])
      | Inr outreq \<Rightarrow> Inr [RoundTrip (Transport proxy) outreq])"

text \<open>\<^verbatim>\<open>handleProxyHTTP\<close> (lines 144 to 149) and \<^verbatim>\<open>handleDirectHTTP\<close> (lines 152 to 156).\<close>

definition handleProxyHTTP :: "env \<Rightarrow> Request \<Rightarrow> outcome" where
  "handleProxyHTTP e r =
     (let proxy = NewSingleHostReverseProxy e None;
          proxy = proxy\<lparr>Transport := ProxyTransport\<rparr>
      in ServeHTTP proxy r)"

definition handleDirectHTTP :: "env \<Rightarrow> Request \<Rightarrow> outcome" where
  "handleDirectHTTP e r =
     (let proxy = NewSingleHostReverseProxy e None
      in ServeHTTP proxy r)"

text \<open>
  The two routers of \<^verbatim>\<open>main\<close> (lines 180 to 187 and 196 to 203): CONNECT goes to the
  tunnel handler of the endpoint, every other method to its forward handler.
\<close>

definition MethodConnect :: string where
  "MethodConnect = ''CONNECT''"

definition proxyRouter :: "env \<Rightarrow> string \<Rightarrow> Request \<Rightarrow> outcome" where
  "proxyRouter e proxyURL r =
     (if Method r = MethodConnect then handleProxyTunneling e proxyURL r
      else handleProxyHTTP e r)"

definition directRouter :: "env \<Rightarrow> Request \<Rightarrow> outcome" where
  "directRouter e r =
     (if Method r = MethodConnect then handleDirectTunneling e r
      else handleDirectHTTP e r)"

section \<open>The relay\<close>

text \<open>
  A stream end is scripted: the \<open>k\<close>-th call of \<^verbatim>\<open>Read\<close> returns some bytes and possibly an
  error (\<open>EOF\<close> at the end of the stream, as \<^verbatim>\<open>io.Reader\<close> has it), and the \<open>k\<close>-th call of
  \<^verbatim>\<open>Write\<close> on a buffer returns how many of its bytes were taken and possibly an
  error. The destination observes the bytes that its \<^verbatim>\<open>Write\<close> took.
\<close>

record ReadCloser =
  Read :: "nat \<Rightarrow> string \<times> error option"
  rconn :: conn

record WriteCloser =
  Write :: "nat \<Rightarrow> string \<Rightarrow> nat \<times> error option"
  wconn :: conn

text \<open>
  The loop of \<^verbatim>\<open>io.Copy\<close>: read a chunk; write it if it is not empty, stopping at a write
  error or a short write; stop at a read error, where \<open>EOF\<close> is not reported as an error.
  \<open>i\<close> and \<open>j\<close> count the calls of \<^verbatim>\<open>Read\<close> and \<^verbatim>\<open>Write\<close>; \<open>out\<close> is what the destination has
  observed so far. A source that never ends keeps the loop running: the result is
  \<open>None\<close>.
\<close>

partial_function (option) copyBuffer ::
    "WriteCloser \<Rightarrow> ReadCloser \<Rightarrow> nat \<Rightarrow> nat \<Rightarrow> string \<Rightarrow> (string \<times> error option) option"
where
  "copyBuffer dst src i j out =
     (case Read src i of (p, er) \<Rightarrow>
        if p \<noteq> [] then
          (case Write dst j p of (nw, ew) \<Rightarrow>
             (let out' = out @ take nw p;
                  ew' = (if length p < nw \<and> ew = None then Some ErrInvalidWrite else ew);
                  nw' = (if length p < nw then 0 else nw)
              in if ew' \<noteq> None then Some (out', ew')
                 else if length p \<noteq> nw' then Some (out', Some ErrShortWrite)
                 else (case er of
                         Some e \<Rightarrow> Some (out', if e = EOF then None else Some e)
                       | None \<Rightarrow> copyBuffer dst src (i + 1) (j + 1) out')))
        else (case er of
                Some e \<Rightarrow> Some (out, if e = EOF then None else Some e)
              | None \<Rightarrow> copyBuffer dst src (i + 1) j out))"

definition io_Copy :: "WriteCloser \<Rightarrow> ReadCloser \<Rightarrow> (string \<times> error option) option" where
  "io_Copy dst src = copyBuffer dst src 0 0 []"

text \<open>
  \<^verbatim>\<open>transfer\<close> (lines 159 to 163). The deferred calls run when \<^verbatim>\<open>io.Copy\<close> has returned,
  last deferred first: \<^verbatim>\<open>source.Close()\<close>, then \<^verbatim>\<open>destination.Close()\<close>. The result is
  what the destination observed and the trace of the two closes; it is \<open>None\<close> when the copy
  never returns.
\<close>

definition transfer :: "WriteCloser \<Rightarrow> ReadCloser \<Rightarrow> (string \<times> event list) option" where
  "transfer destination source =
     (case io_Copy destination source of
        None \<Rightarrow> None
      | Some (written, err) \<Rightarrow> Some (written, [Close (rconn source), Close (wconn destination)]))"

text \<open>
  The bytes that the reads number \<open>i\<close> to \<open>k - 1\<close> of a source produce, in order;
  \<open>produced src 0 k\<close> is everything its first \<open>k\<close> reads return.
\<close>

definition produced :: "ReadCloser \<Rightarrow> nat \<Rightarrow> nat \<Rightarrow> string" where
  "produced src i k = concat (map (\<lambda>n. fst (Read src n)) [i..<k])"

section \<open>Concrete requests, environments and streams\<close>

text \<open>
  Inputs on which the theorems below are evaluated: a CONNECT request and a GET request, an
  environment built from the result of the dial (the same for both dial functions), the
  upstream's answer and the result of the hijack, and the two ends of one relay direction.
\<close>

definition connect_example :: Request where
  "connect_example =
     \<lparr>Method = ''CONNECT'', Host = ''example.com:443'',
      ReqURL = \<lparr>Scheme = [], URLHost = ''example.com:443'', Path = [], RawQuery = []\<rparr>,
      Header = [], Body = []\<rparr>"

definition get_example :: Request where
  "get_example =
     \<lparr>Method = ''GET'', Host = ''example.com'',
      ReqURL = \<lparr>Scheme = ''http'', URLHost = ''example.com'', Path = ''/'', RawQuery = []\<rparr>,
      Header = [(''Accept'', ''*/*'')], Body = []\<rparr>"

definition env_example :: "(error + conn) \<Rightarrow> (error + nat) \<Rightarrow> hijack_result \<Rightarrow> env" where
  "env_example dial_result reply hijack_result =
     \<lparr>net_Dial = (\<lambda>address. dial_result),
      net_DialTimeout = (\<lambda>address timeout. dial_result),
      http_ReadResponse = (\<lambda>c request. reply),
      hijacker = hijack_result,
      lib_rewrite = (\<lambda>req target. req\<lparr>ReqURL := target\<rparr>)\<rparr>"

definition source_example :: ReadCloser where
  "source_example =
     \<lparr>Read = (\<lambda>n. if n = 0 then (''GET / '', None)
                  else if n = 1 then (''HTTP/1.1'', None)
                  else ([], Some EOF)),
      rconn = 3\<rparr>"

definition destination_example :: WriteCloser where
  "destination_example = \<lparr>Write = (\<lambda>j p. (length p, None)), wconn = 7\<rparr>"

definition broken_destination_example :: WriteCloser where
  "broken_destination_example =
     \<lparr>Write = (\<lambda>j p. (0, Some (Err ''use of closed network connection''))), wconn = 7\<rparr>"

section \<open>Properties of the resolver\<close>

text \<open>
  The split always has one piece more than the string has separators, so the two length
  tests of \<^verbatim>\<open>parseProxyURL\<close> are tests on the number of \<open>@\<close>.
\<close>

lemma strings_Split_nonempty: "strings_Split s sep \<noteq> []"
  by (induction s) (auto split: list.splits)

lemma length_strings_Split: "length (strings_Split s sep) = Suc (count_list s sep)"
  by (induction s) (auto split: list.splits simp: strings_Split_nonempty)

lemma parseProxyURL_total: "\<exists>server user. parseProxyURL s = Inr (server, user, None)"
  by (auto simp: parseProxyURL_def index_def Let_def)

lemma parseProxyURL_many:
  "2 \<le> count_list s CHR ''@'' \<Longrightarrow> parseProxyURL s = Inr ([], [], None)"
  by (simp add: parseProxyURL_def Let_def length_strings_Split)

lemma parseProxyURL_err: "parseProxyURL s = Inr (server, user, err) \<Longrightarrow> err = None"
  using parseProxyURL_total[of s] by auto

lemma strings_Split_none: "count_list s sep = 0 \<Longrightarrow> strings_Split s sep = [s]"
  by (induction s) (auto split: if_splits)

lemma split_last_at_none: "count_list s CHR ''@'' = 0 \<Longrightarrow> split_last_at s = None"
  by (induction s) (auto split: if_splits)

lemma split_single_at:
  "count_list s CHR ''@'' = 1 \<Longrightarrow>
     \<exists>b a. strings_Split s CHR ''@'' = [b, a] \<and> split_last_at s = Some (b, a)"
  by (induction s) (auto split: if_splits simp: strings_Split_none split_last_at_none)

lemma strings_Split_append_sep:
  "sep \<notin> set b \<Longrightarrow> strings_Split (b @ sep # a) sep = b # strings_Split a sep"
  by (induction b) auto

lemma count_list_0_iff: "count_list s c = 0 \<longleftrightarrow> c \<notin> set s"
  by (induction s) auto

lemma parseProxyURL_no_at:
  "CHR ''@'' \<notin> set s \<Longrightarrow> parseProxyURL s = Inr (s, [], None)"
  by (simp add: parseProxyURL_def Let_def index_def strings_Split_none count_list_0_iff)

lemma parseProxyURL_one_at:
  "CHR ''@'' \<notin> set credentials \<Longrightarrow> CHR ''@'' \<notin> set address \<Longrightarrow>
     parseProxyURL (credentials @ CHR ''@'' # address) = Inr (address, credentials, None)"
  by (simp add: parseProxyURL_def Let_def index_def strings_Split_append_sep strings_Split_none
        count_list_0_iff)

lemma parseProxyURL_refines:
  assumes "count_list s CHR ''@'' \<le> 1"
  shows "parseProxyURL s = Inr (fst (spec_resolver s), snd (spec_resolver s), None)"
proof (cases "count_list s CHR ''@'' = 0")
  case True
  then show ?thesis
    by (simp add: parseProxyURL_def Let_def strings_Split_none split_last_at_none
          spec_resolver_def index_def)
next
  case False
  with assms have "count_list s CHR ''@'' = 1" by simp
  from split_single_at[OF this] obtain b a where
    "strings_Split s CHR ''@'' = [b, a]" "split_last_at s = Some (b, a)" by blast
  then show ?thesis
    by (simp add: parseProxyURL_def Let_def spec_resolver_def index_def)
qed

lemma parse_alice:
  "parseProxyURL ''alice:secret@10.0.0.5:8080'' = Inr (''10.0.0.5:8080'', ''alice:secret'', None)"
  by (simp add: parseProxyURL_def Let_def index_def)

lemma b64_alice: "EncodeToString ''alice:secret'' = ''YWxpY2U6c2VjcmV0''"
  by (simp add: enc_def encodeStd_def)

text \<open>The vectors of RFC 4648, section 10, for the encoder.\<close>

lemma EncodeToString_rfc4648:
  "map EncodeToString ['''', ''f'', ''fo'', ''foo'', ''foob'', ''fooba'', ''foobar'']
     = ['''', ''Zg=='', ''Zm8='', ''Zm9v'', ''Zm9vYg=='', ''Zm9vYmE='', ''Zm9vYmFy'']"
  by (simp add: enc_def encodeStd_def)

text \<open>
  Claim C2 as stated, that the resolver splits on the last \<open>@\<close>, fails at \<open>a@b@c\<close>: the
  split on the last \<open>@\<close> has the address \<open>c\<close> and the credentials \<open>a@b\<close>, the code returns
  two empty strings.
\<close>

theorem parseProxyURL_not_last_at_counterexample:
  "spec_resolver ''a@b@c'' = (''c'', ''a@b'')
   \<and> parseProxyURL ''a@b@c'' = Inr ([], [], None)
   \<and> parseProxyURL ''a@b@c'' \<noteq> Inr (''c'', ''a@b'', None)"
  by (simp add: parseProxyURL_def Let_def index_def spec_resolver_def)

text \<open>
  Claim C2, amended. For a specification string with at most one \<open>@\<close> the resolver agrees
  with the split on the last \<open>@\<close>: without an \<open>@\<close> the credentials are empty and the whole
  string is the address; with one \<open>@\<close> the credentials are what is before it and the
  address what is after it. For \<open>alice:secret@10.0.0.5:8080\<close> it yields the address
  \<open>10.0.0.5:8080\<close> and the credentials \<open>alice:secret\<close>; for \<open>10.0.0.5:8080\<close> the credentials
  are empty.
\<close>

theorem parseProxyURL_splits_single_at:
  "(count_list s CHR ''@'' \<le> 1 \<longrightarrow>
      parseProxyURL s = Inr (fst (spec_resolver s), snd (spec_resolver s), None))
   \<and> (CHR ''@'' \<notin> set s \<longrightarrow> parseProxyURL s = Inr (s, [], None))
   \<and> (CHR ''@'' \<notin> set credentials \<and> CHR ''@'' \<notin> set address \<longrightarrow>
        parseProxyURL (credentials @ CHR ''@'' # address) = Inr (address, credentials, None))
   \<and> parseProxyURL ''alice:secret@10.0.0.5:8080''
        = Inr (''10.0.0.5:8080'', ''alice:secret'', None)
   \<and> parseProxyURL ''10.0.0.5:8080'' = Inr (''10.0.0.5:8080'', [], None)"
  using parseProxyURL_refines[of s] parseProxyURL_no_at[of s]
    parseProxyURL_one_at[of credentials address] parse_alice
    parseProxyURL_no_at[of "''10.0.0.5:8080''"]
  by simp

text \<open>Claim C2, amended, at a string with one \<open>@\<close> and at a string with none.\<close>

theorem parseProxyURL_splits_single_at_witness:
  "count_list ''bob:pw@proxy.local:3128'' CHR ''@'' \<le> 1
   \<and> CHR ''@'' \<notin> set ''bob:pw'' \<and> CHR ''@'' \<notin> set ''proxy.local:3128''
   \<and> spec_resolver ''bob:pw@proxy.local:3128'' = (''proxy.local:3128'', ''bob:pw'')
   \<and> parseProxyURL ''bob:pw@proxy.local:3128'' = Inr (''proxy.local:3128'', ''bob:pw'', None)
   \<and> CHR ''@'' \<notin> set ''proxy.local:3128''
   \<and> parseProxyURL ''proxy.local:3128'' = Inr (''proxy.local:3128'', [], None)"
proof -
  have c: "count_list ''bob:pw@proxy.local:3128'' CHR ''@'' \<le> 1" by simp
  have s: "spec_resolver ''bob:pw@proxy.local:3128'' = (''proxy.local:3128'', ''bob:pw'')"
    by (simp add: spec_resolver_def)
  have n: "CHR ''@'' \<notin> set ''bob:pw''" "CHR ''@'' \<notin> set ''proxy.local:3128''" by simp_all
  from parseProxyURL_splits_single_at[of "''bob:pw@proxy.local:3128''" "''bob:pw''" "''proxy.local:3128''"] c
  have 1: "parseProxyURL ''bob:pw@proxy.local:3128''
             = Inr (fst (spec_resolver ''bob:pw@proxy.local:3128''),
                    snd (spec_resolver ''bob:pw@proxy.local:3128''), None)" by blast
  from parseProxyURL_splits_single_at[of "''proxy.local:3128''" "[]" "[]"] n
  have 2: "parseProxyURL ''proxy.local:3128'' = Inr (''proxy.local:3128'', [], None)" by blast
  show ?thesis using c s n 1 2 by simp
qed

section \<open>Properties of the encoder\<close>

text \<open>
  Decoding what \<^verbatim>\<open>EncodeToString\<close> returns gives the input back: the four digits of a
  group are the base-64 digits of its 24-bit value, and no digit is the padding character.
\<close>

lemma position_nth: "distinct xs \<Longrightarrow> i < length xs \<Longrightarrow> position (xs ! i) xs = i"
proof (induction xs arbitrary: i)
  case Nil
  then show ?case by simp
next
  case (Cons x xs)
  then show ?case by (cases i) auto
qed

lemma distinct_encodeStd: "distinct encodeStd"
  by (simp add: encodeStd_def)

lemma length_encodeStd: "length encodeStd = 64"
  by (simp add: encodeStd_def)

lemma dec_enc: "dec (enc v) = v mod 64"
  by (simp add: dec_def enc_def position_nth distinct_encodeStd length_encodeStd)

lemma enc_not_pad: "enc v \<noteq> CHR ''=''"
proof -
  have "enc v \<in> set encodeStd"
    by (simp add: enc_def length_encodeStd)
  moreover have "CHR ''='' \<notin> set encodeStd"
    by (simp add: encodeStd_def)
  ultimately show ?thesis by metis
qed

lemma of_char_bound: "of_char (c::char) < (256::nat)"
  by simp


lemma digits64:
  fixes v :: nat
  assumes "v < 16777216"
  shows "(v div 262144) mod 64 * 262144 + (v div 4096) mod 64 * 4096
           + (v div 64) mod 64 * 64 + v mod 64 = v"
proof -
  define q1 where "q1 = v div 64"
  define q2 where "q2 = q1 div 64"
  define q3 where "q3 = q2 div 64"
  have q2: "q2 = v div 4096"
    unfolding q2_def q1_def by (simp add: div_mult2_eq[symmetric])
  have q3: "q3 = v div 262144"
    unfolding q3_def q2 by (simp add: div_mult2_eq[symmetric])
  have "q3 < 64"
    unfolding q3 using assms by (simp add: less_mult_imp_div_less)
  then have m3: "q3 mod 64 = q3" by simp
  have a: "v = q1 * 64 + v mod 64" unfolding q1_def by simp
  have b: "q1 = q2 * 64 + q1 mod 64" unfolding q2_def by simp
  have c: "q2 = q3 * 64 + q2 mod 64" unfolding q3_def by simp
  have "q3 * 262144 + q2 mod 64 * 4096 + q1 mod 64 * 64 + v mod 64
          = ((q3 * 64 + q2 mod 64) * 64 + q1 mod 64) * 64 + v mod 64"
    by (simp add: algebra_simps)
  also have "\<dots> = v" using a b c by simp
  finally show ?thesis
    unfolding q1_def[symmetric] q2[symmetric] q3[symmetric] m3 .
qed

lemma bytes3:
  fixes A B C :: nat
  assumes "B < 256" "C < 256"
  shows "(A * 65536 + B * 256 + C) div 65536 = A"
    and "((A * 65536 + B * 256 + C) div 256) mod 256 = B"
    and "(A * 65536 + B * 256 + C) mod 256 = C"
proof -
  have r: "B * 256 + C < 65536" using assms by linarith
  have "(A * 65536 + B * 256 + C) div 65536 = (B * 256 + C + A * 65536) div 65536"
    by (simp add: add.commute add.left_commute)
  also have "\<dots> = A" using r by simp
  finally show "(A * 65536 + B * 256 + C) div 65536 = A" .
  have "(A * 65536 + B * 256 + C) div 256 = (C + (A * 256 + B) * 256) div 256"
    by (simp add: algebra_simps)
  also have "\<dots> = A * 256 + B" using assms by simp
  finally have d: "(A * 65536 + B * 256 + C) div 256 = A * 256 + B" .
  show "((A * 65536 + B * 256 + C) div 256) mod 256 = B"
    unfolding d using assms by simp
  have "(A * 65536 + B * 256 + C) mod 256 = (C + (A * 256 + B) * 256) mod 256"
    by (simp add: algebra_simps)
  also have "\<dots> = C mod 256" by (rule mod_mult_self1)
  also have "\<dots> = C" using assms by simp
  finally show "(A * 65536 + B * 256 + C) mod 256 = C" .
qed

lemma decode_digits:
  assumes "v < 16777216"
  shows "dec (enc (v div 262144)) * 262144 + dec (enc (v div 4096)) * 4096
           + dec (enc (v div 64)) * 64 + dec (enc v) = v"
  unfolding dec_enc by (rule digits64[OF assms])

lemma value3:
  fixes A B C :: nat
  assumes "A < 256" "B < 256" "C < 256"
  shows "A * 65536 + B * 256 + C < 16777216"
  using assms by linarith

lemma char_of_byte: "char_of (of_char c :: nat) = c"
  by simp

lemma char_of_low: "char_of (n :: nat) = char_of (n mod 256)"
  by (rule char_of_mod_256[symmetric])

lemma DecodeString_group:
  fixes a b c :: char
  defines "v \<equiv> of_char a * 65536 + of_char b * 256 + (of_char c :: nat)"
  shows "DecodeString (enc (v div 262144) # enc (v div 4096) # enc (v div 64) # enc v # rest)
           = a # b # c # DecodeString rest"
proof -
  have lt: "v < 16777216"
    unfolding v_def by (rule value3) simp_all
  have 1: "char_of (v div 65536) = a"
    unfolding v_def by (subst bytes3(1)) simp_all
  have "char_of (v div 256) = char_of ((v div 256) mod 256)" by (rule char_of_low)
  also have "\<dots> = b" unfolding v_def by (subst bytes3(2)) simp_all
  finally have 2: "char_of (v div 256) = b" .
  have "char_of v = char_of (v mod 256)" by (rule char_of_low)
  also have "\<dots> = c" unfolding v_def by (subst bytes3(3)) simp_all
  finally have 3: "char_of v = c" .
  show ?thesis
    by (simp add: enc_not_pad decode_digits[OF lt] 1 2 3 Let_def)
qed

lemma DecodeString_two:
  fixes a b :: char
  defines "v \<equiv> of_char a * 65536 + of_char b * (256 :: nat)"
  shows "DecodeString [enc (v div 262144), enc (v div 4096), enc (v div 64), CHR ''='']
           = [a, b]"
proof -
  have v0: "v = of_char a * 65536 + of_char b * 256 + (0 :: nat)"
    unfolding v_def by simp
  have lt: "v < 16777216"
    unfolding v0 by (rule value3) simp_all
  have "v mod 64 = (of_char a * 1024 + of_char b * 4) * 64 mod 64"
    unfolding v_def by (simp add: algebra_simps)
  then have low: "dec (enc v) = 0"
    unfolding dec_enc by simp
  have 1: "char_of (v div 65536) = a"
    unfolding v0 by (subst bytes3(1)) simp_all
  have "char_of (v div 256) = char_of ((v div 256) mod 256)" by (rule char_of_low)
  also have "\<dots> = b" unfolding v0 by (subst bytes3(2)) simp_all
  finally have 2: "char_of (v div 256) = b" .
  from decode_digits[OF lt] low
  have "dec (enc (v div 262144)) * 262144 + dec (enc (v div 4096)) * 4096
           + dec (enc (v div 64)) * 64 = v" by simp
  then show ?thesis
    by (simp add: enc_not_pad 1 2 Let_def)
qed

lemma DecodeString_one:
  fixes a :: char
  defines "v \<equiv> of_char a * (65536 :: nat)"
  shows "DecodeString [enc (v div 262144), enc (v div 4096), CHR ''='', CHR ''='']
           = [a]"
proof -
  have v0: "v = of_char a * 65536 + 0 * 256 + (0 :: nat)"
    unfolding v_def by simp
  have lt: "v < 16777216"
    unfolding v0 by (rule value3) simp_all
  have "v mod 64 = (of_char a * 1024) * 64 mod 64"
    unfolding v_def by (simp add: algebra_simps)
  then have low: "dec (enc v) = 0"
    unfolding dec_enc by simp
  have "v div 64 = of_char a * 1024"
    unfolding v_def by simp
  then have "v div 64 mod 64 = (of_char a * 16) * 64 mod 64"
    by (simp add: algebra_simps)
  then have mid: "dec (enc (v div 64)) = 0"
    unfolding dec_enc by simp
  have 1: "char_of (v div 65536) = a"
    unfolding v0 by (subst bytes3(1)) simp_all
  from decode_digits[OF lt] low mid
  have "dec (enc (v div 262144)) * 262144 + dec (enc (v div 4096)) * 4096 = v" by simp
  then show ?thesis
    by (simp add: enc_not_pad 1 Let_def)
qed

lemma DecodeString_EncodeToString: "DecodeString (EncodeToString s) = s"
proof (induction s rule: EncodeToString.induct)
  case (1 a b c rest)
  then show ?case
    by (simp only: EncodeToString.simps Let_def append_Cons append_Nil DecodeString_group)
next
  case (2 a b)
  show ?case
    by (simp only: EncodeToString.simps Let_def DecodeString_two)
next
  case (3 a)
  show ?case
    by (simp only: EncodeToString.simps Let_def DecodeString_one)
next
  case 4
  show ?case by simp
qed

section \<open>Properties of the chained tunnel handler\<close>

text \<open>
  The resolver never fails, so the handler is determined by the dial, the upstream's answer
  and the hijack.
\<close>

lemma handleProxyTunneling_dial_failed:
  assumes "parseProxyURL proxyURL = Inr (proxyStr, auth, err)" and "net_Dial e proxyStr = Inl x"
  shows "handleProxyTunneling e proxyURL r =
           Inr [Dial proxyStr None,
                HttpError ''Failed to connect to the second proxy'' StatusServiceUnavailable]"
  using assms parseProxyURL_err[OF assms(1)] by (simp add: handleProxyTunneling_def)

lemma handleProxyTunneling_dialled:
  assumes "parseProxyURL proxyURL = Inr (proxyStr, auth, err)" and "net_Dial e proxyStr = Inr proxyConn"
  shows "handleProxyTunneling e proxyURL r =
    (let request = connectRequest (Host r) auth;
         handshake = [Dial proxyStr None, ConnWrite proxyConn request, ReadResponse proxyConn]
     in case http_ReadResponse e proxyConn request of
          Inl _ \<Rightarrow>
            Inr (handshake @
              [HttpError ''Failed to read response from the second proxy''
                 StatusServiceUnavailable])
        | Inr StatusCode \<Rightarrow>
            if StatusCode \<noteq> 200 then
              (case checkWriteHeaderCode StatusCode of
                 Some p \<Rightarrow> Inl (p, handshake)
               | None \<Rightarrow>
                   Inr (handshake @
                     [HttpError ''Failed to connect to the host through the second proxy''
                        StatusCode]))
            else
              (case hijacker e of
                 NotHijacker \<Rightarrow>
                   Inr (handshake @
                     [WriteHeader StatusOK,
                      HttpError ''Hijacking not supported'' StatusInternalServerError])
               | HijackError msg \<Rightarrow>
                   Inr (handshake @
                     [WriteHeader StatusOK, HijackCall,
                      HttpError msg StatusServiceUnavailable])
               | Hijacked clientConn \<Rightarrow>
                   Inr (handshake @
                     [WriteHeader StatusOK, HijackCall,
                      GoTransfer clientConn proxyConn,
                      GoTransfer proxyConn clientConn])))"
  using assms parseProxyURL_err[OF assms(1)] by (simp add: handleProxyTunneling_def)

text \<open>
  Claim C10. For every input string the resolver returns a nil error and does not panic, so
  the error branches of its two callers are never taken: the chained tunnel handler never
  answers with its parse-failure response, and the \<^verbatim>\<open>Proxy\<close> function of the transport
  always returns what \<^verbatim>\<open>url.Parse\<close> returns for the resolved address. An input with two or
  more \<open>@\<close> resolves to an empty address and empty credentials, with a nil error.
\<close>

theorem parseProxyURL_error_always_nil:
  "(\<exists>server user. parseProxyURL s = Inr (server, user, None))
   \<and> (2 \<le> count_list s CHR ''@'' \<longrightarrow> parseProxyURL s = Inr ([], [], None))
   \<and> handleProxyTunneling e s r
        \<noteq> Inr [HttpError ''Failed to parse proxy URL'' StatusInternalServerError]
   \<and> (\<exists>server user. parseProxyURL s = Inr (server, user, None)
         \<and> proxyTransport_Proxy url_Parse s = Inr (url_Parse server))"
proof -
  obtain server user where p: "parseProxyURL s = Inr (server, user, None)"
    using parseProxyURL_total by blast
  have "handleProxyTunneling e s r
          \<noteq> Inr [HttpError ''Failed to parse proxy URL'' StatusInternalServerError]"
  proof (cases "net_Dial e server")
    case (Inl x)
    show ?thesis unfolding handleProxyTunneling_dial_failed[OF p Inl] by simp
  next
    case (Inr proxyConn)
    show ?thesis unfolding handleProxyTunneling_dialled[OF p Inr]
      by (simp add: Let_def split: sum.splits hijack_result.splits option.splits)
  qed
  moreover have "proxyTransport_Proxy url_Parse s = Inr (url_Parse server)"
    by (simp add: proxyTransport_Proxy_def p)
  moreover have "2 \<le> count_list s CHR ''@'' \<longrightarrow> parseProxyURL s = Inr ([], [], None)"
    using parseProxyURL_many by blast
  ultimately show ?thesis using p by blast
qed

text \<open>Claim C10 at the input \<open>a@b@c\<close>, which has two \<open>@\<close>.\<close>

theorem parseProxyURL_error_always_nil_witness:
  "2 \<le> count_list ''a@b@c'' CHR ''@''
   \<and> parseProxyURL ''a@b@c'' = Inr ([], [], None)
   \<and> handleProxyTunneling (env_example (Inl (Err ''missing address'')) (Inr 200) (Hijacked 3))
        ''a@b@c'' connect_example
        \<noteq> Inr [HttpError ''Failed to parse proxy URL'' StatusInternalServerError]"
proof -
  have c: "2 \<le> count_list ''a@b@c'' CHR ''@''" by simp
  show ?thesis
    using parseProxyURL_error_always_nil[of "''a@b@c''"
        "env_example (Inl (Err ''missing address'')) (Inr 200) (Hijacked 3)" connect_example] c
    by blast
qed

text \<open>
  Claim C5 as stated, that a malformed specification string is reported as a parse error,
  fails: for more than one \<open>@\<close>, for an empty address after the \<open>@\<close> and for the empty
  string the resolver returns a nil error.
\<close>

theorem malformed_spec_no_parse_error_counterexample:
  "parseProxyURL ''a@b@c'' = Inr ([], [], None)
   \<and> parseProxyURL ''user:pw@'' = Inr ([], ''user:pw'', None)
   \<and> parseProxyURL [] = Inr ([], [], None)"
  by (simp add: parseProxyURL_def Let_def index_def)

text \<open>
  Claim C5, amended. For every specification string, malformed or not, the resolver
  returns without a panic and with a nil error. A string with more than one \<open>@\<close> resolves
  to an empty address and empty credentials, a string that ends with its only \<open>@\<close> to an
  empty address. The chained tunnel handler then dials the empty address, and when that
  dial fails it answers 503 Service Unavailable.
\<close>

theorem malformed_spec_resolves_to_empty_address:
  "(\<exists>server user. parseProxyURL s = Inr (server, user, None))
   \<and> (2 \<le> count_list s CHR ''@'' \<longrightarrow> parseProxyURL s = Inr ([], [], None))
   \<and> (CHR ''@'' \<notin> set credentials \<longrightarrow>
        parseProxyURL (credentials @ ''@'') = Inr ([], credentials, None))
   \<and> (parseProxyURL s = Inr ([], auth, err) \<and> net_Dial e [] = Inl x \<longrightarrow>
        handleProxyTunneling e s r =
          Inr [Dial [] None,
               HttpError ''Failed to connect to the second proxy'' StatusServiceUnavailable])"
  using parseProxyURL_total[of s] parseProxyURL_many[of s]
    parseProxyURL_one_at[of credentials "[]"]
    handleProxyTunneling_dial_failed[of s "[]" auth err e x r]
  by simp

text \<open>Claim C5, amended, at \<open>a@b@c\<close> and \<open>user:pw@\<close>, with a dial that fails.\<close>

theorem malformed_spec_resolves_to_empty_address_witness:
  "2 \<le> count_list ''a@b@c'' CHR ''@''
   \<and> parseProxyURL ''a@b@c'' = Inr ([], [], None)
   \<and> CHR ''@'' \<notin> set ''user:pw''
   \<and> parseProxyURL ''user:pw@'' = Inr ([], ''user:pw'', None)
   \<and> net_Dial (env_example (Inl (Err ''missing address'')) (Inr 200) (Hijacked 3)) []
        = Inl (Err ''missing address'')
   \<and> handleProxyTunneling (env_example (Inl (Err ''missing address'')) (Inr 200) (Hijacked 3))
        ''a@b@c'' connect_example
        = Inr [Dial [] None,
               HttpError ''Failed to connect to the second proxy'' StatusServiceUnavailable]"
proof -
  let ?e = "env_example (Inl (Err ''missing address'')) (Inr 200) (Hijacked 3)"
  have c: "2 \<le> count_list ''a@b@c'' CHR ''@''" by simp
  have n: "CHR ''@'' \<notin> set ''user:pw''" by simp
  have d: "net_Dial ?e [] = Inl (Err ''missing address'')" by (simp add: env_example_def)
  note inst = malformed_spec_resolves_to_empty_address[of "''a@b@c''" "''user:pw''" "[]" None ?e
      "Err ''missing address''" connect_example]
  from inst c have 1: "parseProxyURL ''a@b@c'' = Inr ([], [], None)" by blast
  from inst n have 2: "parseProxyURL (''user:pw'' @ ''@'') = Inr ([], ''user:pw'', None)" by blast
  from inst 1 d have 3: "handleProxyTunneling ?e ''a@b@c'' connect_example
        = Inr [Dial [] None,
               HttpError ''Failed to connect to the second proxy'' StatusServiceUnavailable]"
    by blast
  show ?thesis using c n d 1 2 3 by simp
qed

text \<open>
  Claim C3. In every chained CONNECT request whose dial to the upstream succeeds, the one
  message written to the upstream is the CONNECT request: its request line and its Host
  line name the host of the client's request, each line ends with the bytes CR LF, and the
  request ends with a blank line. When the resolved credentials are not empty it has the
  line \<open>Proxy-Authorization: Basic\<close> followed by the base64 encoding of the credentials
  between the Host line and the blank line; when they are empty nothing is between the
  two. The encoding is the one that decodes to the credentials.
\<close>

theorem chained_connect_request:
  assumes "parseProxyURL proxyURL = Inr (proxyStr, auth, err)"
      and "net_Dial e proxyStr = Inr proxyConn"
  shows "sent (trace_of (handleProxyTunneling e proxyURL r))
           = [(proxyConn, connectRequest (Host r) auth)]
       \<and> (auth \<noteq> [] \<longrightarrow>
            connectRequest (Host r) auth =
              ''CONNECT '' @ Host r @ '' HTTP/1.1'' @ [CHR 0x0D, CHR 0x0A] @ ''Host: '' @ Host r @ [CHR 0x0D, CHR 0x0A]
                @ ''Proxy-Authorization: Basic '' @ EncodeToString auth
                @ [CHR 0x0D, CHR 0x0A, CHR 0x0D, CHR 0x0A])
       \<and> (auth = [] \<longrightarrow>
            connectRequest (Host r) auth =
              ''CONNECT '' @ Host r @ '' HTTP/1.1'' @ [CHR 0x0D, CHR 0x0A] @ ''Host: '' @ Host r
                @ [CHR 0x0D, CHR 0x0A, CHR 0x0D, CHR 0x0A])
       \<and> DecodeString (EncodeToString auth) = auth"
proof -
  have "sent (trace_of (handleProxyTunneling e proxyURL r))
           = [(proxyConn, connectRequest (Host r) auth)]"
    unfolding handleProxyTunneling_dialled[OF assms]
    by (simp add: Let_def trace_of_def split: sum.splits hijack_result.splits option.splits)
  moreover have "auth \<noteq> [] \<longrightarrow>
            connectRequest (Host r) auth =
              ''CONNECT '' @ Host r @ '' HTTP/1.1'' @ [CHR 0x0D, CHR 0x0A] @ ''Host: '' @ Host r @ [CHR 0x0D, CHR 0x0A]
                @ ''Proxy-Authorization: Basic '' @ EncodeToString auth
                @ [CHR 0x0D, CHR 0x0A, CHR 0x0D, CHR 0x0A]"
    by (simp add: connectRequest_def authorizationHeader_def CRLF_def)
  moreover have "auth = [] \<longrightarrow>
            connectRequest (Host r) auth =
              ''CONNECT '' @ Host r @ '' HTTP/1.1'' @ [CHR 0x0D, CHR 0x0A] @ ''Host: '' @ Host r
                @ [CHR 0x0D, CHR 0x0A, CHR 0x0D, CHR 0x0A]"
    by (simp add: connectRequest_def authorizationHeader_def CRLF_def)
  ultimately show ?thesis using DecodeString_EncodeToString[of auth] by blast
qed

text \<open>
  Claim C3 for a CONNECT to \<open>example.com:443\<close>, through the upstream
  \<open>alice:secret@10.0.0.5:8080\<close> and through the upstream \<open>10.0.0.5:8080\<close> without
  credentials.
\<close>

theorem chained_connect_request_witness:
  "parseProxyURL ''alice:secret@10.0.0.5:8080'' = Inr (''10.0.0.5:8080'', ''alice:secret'', None)
   \<and> parseProxyURL ''10.0.0.5:8080'' = Inr (''10.0.0.5:8080'', [], None)
   \<and> net_Dial (env_example (Inr 7) (Inr 200) (Hijacked 3)) ''10.0.0.5:8080'' = Inr 7
   \<and> sent (trace_of (handleProxyTunneling (env_example (Inr 7) (Inr 200) (Hijacked 3))
                        ''alice:secret@10.0.0.5:8080'' connect_example))
       = [(7, ''CONNECT example.com:443 HTTP/1.1'' @ [CHR 0x0D, CHR 0x0A]
                @ ''Host: example.com:443'' @ [CHR 0x0D, CHR 0x0A]
                @ ''Proxy-Authorization: Basic YWxpY2U6c2VjcmV0''
                @ [CHR 0x0D, CHR 0x0A, CHR 0x0D, CHR 0x0A])]
   \<and> sent (trace_of (handleProxyTunneling (env_example (Inr 7) (Inr 200) (Hijacked 3))
                        ''10.0.0.5:8080'' connect_example))
       = [(7, ''CONNECT example.com:443 HTTP/1.1'' @ [CHR 0x0D, CHR 0x0A]
                @ ''Host: example.com:443'' @ [CHR 0x0D, CHR 0x0A, CHR 0x0D, CHR 0x0A])]
   \<and> DecodeString ''YWxpY2U6c2VjcmV0'' = ''alice:secret''"
proof -
  let ?e = "env_example (Inr 7) (Inr 200) (Hijacked 3)"
  have p: "parseProxyURL ''alice:secret@10.0.0.5:8080''
             = Inr (''10.0.0.5:8080'', ''alice:secret'', None)"
    by (rule parse_alice)
  have q: "parseProxyURL ''10.0.0.5:8080'' = Inr (''10.0.0.5:8080'', [], None)"
    by (rule parseProxyURL_no_at) simp
  have d: "net_Dial ?e ''10.0.0.5:8080'' = Inr 7"
    by (simp add: env_example_def)
  have h: "Host connect_example = ''example.com:443''"
    by (simp add: connect_example_def)
  note with_auth = chained_connect_request[OF p d, of connect_example]
  note without = chained_connect_request[OF q d, of connect_example]
  have ne: "''alice:secret'' \<noteq> []" by simp
  from with_auth ne have c: "connectRequest ''example.com:443'' ''alice:secret'' =
      ''CONNECT '' @ ''example.com:443'' @ '' HTTP/1.1'' @ [CHR 0x0D, CHR 0x0A] @ ''Host: ''
        @ ''example.com:443'' @ [CHR 0x0D, CHR 0x0A]
        @ ''Proxy-Authorization: Basic '' @ EncodeToString ''alice:secret''
        @ [CHR 0x0D, CHR 0x0A, CHR 0x0D, CHR 0x0A]"
    unfolding h by blast
  from with_auth have r: "DecodeString (EncodeToString ''alice:secret'') = ''alice:secret''"
    by blast
  from without have c': "connectRequest ''example.com:443'' [] =
      ''CONNECT '' @ ''example.com:443'' @ '' HTTP/1.1'' @ [CHR 0x0D, CHR 0x0A] @ ''Host: ''
        @ ''example.com:443'' @ [CHR 0x0D, CHR 0x0A, CHR 0x0D, CHR 0x0A]"
    unfolding h by blast
  from with_auth have
    s: "sent (trace_of (handleProxyTunneling ?e ''alice:secret@10.0.0.5:8080'' connect_example))
          = [(7, connectRequest ''example.com:443'' ''alice:secret'')]"
    unfolding h by blast
  from without have
    s': "sent (trace_of (handleProxyTunneling ?e ''10.0.0.5:8080'' connect_example))
          = [(7, connectRequest ''example.com:443'' [])]"
    unfolding h by blast
  have 1: "sent (trace_of (handleProxyTunneling ?e ''alice:secret@10.0.0.5:8080''
                              connect_example))
       = [(7, ''CONNECT example.com:443 HTTP/1.1'' @ [CHR 0x0D, CHR 0x0A]
                @ ''Host: example.com:443'' @ [CHR 0x0D, CHR 0x0A]
                @ ''Proxy-Authorization: Basic YWxpY2U6c2VjcmV0''
                @ [CHR 0x0D, CHR 0x0A, CHR 0x0D, CHR 0x0A])]"
    unfolding s c[unfolded b64_alice] by simp
  have 2: "sent (trace_of (handleProxyTunneling ?e ''10.0.0.5:8080'' connect_example))
       = [(7, ''CONNECT example.com:443 HTTP/1.1'' @ [CHR 0x0D, CHR 0x0A]
                @ ''Host: example.com:443'' @ [CHR 0x0D, CHR 0x0A, CHR 0x0D, CHR 0x0A])]"
    unfolding s' c' by simp
  from p q d 1 2 r[unfolded b64_alice] show ?thesis by (intro conjI)
qed

text \<open>
  Claim C7. When the dial of a CONNECT request fails, the client's answer is 503 Service
  Unavailable, exactly one dial was made (no retry), nothing was sent and no relay is
  started: in direct mode for the dial to the request's host, in chained mode for the dial
  to the resolved upstream address. Every direct-mode dial is made with the timeout of 10
  seconds, that is 10000000000 nanoseconds.
\<close>

theorem dial_failure_gives_503:
  "(net_DialTimeout e (Host r) (10 * time_Second) = Inl x \<longrightarrow>
      (\<exists>tr. handleDirectTunneling e r = Inr tr
         \<and> statuses tr = [StatusServiceUnavailable]
         \<and> dialled tr = [(Host r, Some 10000000000)]
         \<and> relays tr = []))
   \<and> (parseProxyURL proxyURL = Inr (proxyStr, auth, err) \<and> net_Dial e proxyStr = Inl y \<longrightarrow>
      (\<exists>tr. handleProxyTunneling e proxyURL r = Inr tr
         \<and> statuses tr = [StatusServiceUnavailable]
         \<and> dialled tr = [(proxyStr, None)]
         \<and> sent tr = [] \<and> relays tr = []))
   \<and> (\<exists>tr. handleDirectTunneling e r = Inr tr
         \<and> dialled tr = [(Host r, Some 10000000000)])"
proof -
  have 1: "net_DialTimeout e (Host r) (10 * time_Second) = Inl x \<longrightarrow>
      (\<exists>tr. handleDirectTunneling e r = Inr tr
         \<and> statuses tr = [StatusServiceUnavailable]
         \<and> dialled tr = [(Host r, Some 10000000000)]
         \<and> relays tr = [])"
    by (simp add: handleDirectTunneling_def Let_def time_Second_def)
  have 2: "parseProxyURL proxyURL = Inr (proxyStr, auth, err) \<and> net_Dial e proxyStr = Inl y \<longrightarrow>
      (\<exists>tr. handleProxyTunneling e proxyURL r = Inr tr
         \<and> statuses tr = [StatusServiceUnavailable]
         \<and> dialled tr = [(proxyStr, None)]
         \<and> sent tr = [] \<and> relays tr = [])"
    using handleProxyTunneling_dial_failed[of proxyURL proxyStr auth err e y r] by simp
  have 3: "\<exists>tr. handleDirectTunneling e r = Inr tr
         \<and> dialled tr = [(Host r, Some 10000000000)]"
    by (simp add: handleDirectTunneling_def Let_def time_Second_def
          split: sum.splits hijack_result.splits)
  from 1 2 3 show ?thesis by blast
qed

text \<open>Claim C7 for a dial that times out, on both endpoints.\<close>

theorem dial_failure_gives_503_witness:
  "net_DialTimeout (env_example (Inl (Err ''i/o timeout'')) (Inr 200) (Hijacked 3))
       (Host connect_example) (10 * time_Second) = Inl (Err ''i/o timeout'')
   \<and> statuses (projr (handleDirectTunneling
         (env_example (Inl (Err ''i/o timeout'')) (Inr 200) (Hijacked 3)) connect_example))
       = [503]
   \<and> dialled (projr (handleDirectTunneling
         (env_example (Inl (Err ''i/o timeout'')) (Inr 200) (Hijacked 3)) connect_example))
       = [(''example.com:443'', Some 10000000000)]
   \<and> parseProxyURL ''alice:secret@10.0.0.5:8080''
       = Inr (''10.0.0.5:8080'', ''alice:secret'', None)
   \<and> net_Dial (env_example (Inl (Err ''i/o timeout'')) (Inr 200) (Hijacked 3)) ''10.0.0.5:8080''
       = Inl (Err ''i/o timeout'')
   \<and> statuses (projr (handleProxyTunneling
         (env_example (Inl (Err ''i/o timeout'')) (Inr 200) (Hijacked 3))
         ''alice:secret@10.0.0.5:8080'' connect_example)) = [503]
   \<and> dialled (projr (handleProxyTunneling
         (env_example (Inl (Err ''i/o timeout'')) (Inr 200) (Hijacked 3))
         ''alice:secret@10.0.0.5:8080'' connect_example)) = [(''10.0.0.5:8080'', None)]"
proof -
  let ?e = "env_example (Inl (Err ''i/o timeout'')) (Inr 200) (Hijacked 3)"
  have h: "Host connect_example = ''example.com:443''" by (simp add: connect_example_def)
  have t: "net_DialTimeout ?e (Host connect_example) (10 * time_Second) = Inl (Err ''i/o timeout'')"
    by (simp add: env_example_def)
  have p: "parseProxyURL ''alice:secret@10.0.0.5:8080''
       = Inr (''10.0.0.5:8080'', ''alice:secret'', None)" by (rule parse_alice)
  have d: "net_Dial ?e ''10.0.0.5:8080'' = Inl (Err ''i/o timeout'')"
    by (simp add: env_example_def)
  note inst = dial_failure_gives_503[of ?e connect_example "Err ''i/o timeout''"
      "''alice:secret@10.0.0.5:8080''" "''10.0.0.5:8080''" "''alice:secret''" None
      "Err ''i/o timeout''"]
  from inst t obtain tr1 where
    "handleDirectTunneling ?e connect_example = Inr tr1" "statuses tr1 = [503]"
    "dialled tr1 = [(Host connect_example, Some 10000000000)]" by blast
  moreover from inst p d obtain tr2 where
    "handleProxyTunneling ?e ''alice:secret@10.0.0.5:8080'' connect_example = Inr tr2"
    "statuses tr2 = [503]" "dialled tr2 = [(''10.0.0.5:8080'', None)]" by blast
  ultimately show ?thesis using t p d h by simp
qed

text \<open>
  Claim C4 as stated fails in three ways. For an upstream that answers 407 the handler
  answers 407 and returns, and its trace closes no connection. For an upstream that answers
  100 the handler passes 100 on, which goes out as an interim response, and the status of
  the response that the client receives is 200. For an upstream that answers 099 the call
  of \<^verbatim>\<open>http.Error\<close> panics and the client receives no response.
\<close>

theorem upstream_rejection_closes_nothing_counterexample:
  "handleProxyTunneling (env_example (Inr 7) (Inr 407) (Hijacked 3)) ''10.0.0.5:8080''
       connect_example
     = Inr [Dial ''10.0.0.5:8080'' None,
            ConnWrite 7 (connectRequest ''example.com:443'' []),
            ReadResponse 7,
            HttpError ''Failed to connect to the host through the second proxy'' 407]
   \<and> closed (projr (handleProxyTunneling (env_example (Inr 7) (Inr 407) (Hijacked 3))
                       ''10.0.0.5:8080'' connect_example)) = []
   \<and> handleProxyTunneling (env_example (Inr 7) (Inr 100) (Hijacked 3)) ''10.0.0.5:8080''
       connect_example
     = Inr [Dial ''10.0.0.5:8080'' None,
            ConnWrite 7 (connectRequest ''example.com:443'' []),
            ReadResponse 7,
            HttpError ''Failed to connect to the host through the second proxy'' 100]
   \<and> client_status (projr (handleProxyTunneling (env_example (Inr 7) (Inr 100) (Hijacked 3))
                              ''10.0.0.5:8080'' connect_example)) = Some 200
   \<and> handleProxyTunneling (env_example (Inr 7) (Inr 99) (Hijacked 3)) ''10.0.0.5:8080''
       connect_example
     = Inl (InvalidWriteHeaderCode,
            [Dial ''10.0.0.5:8080'' None,
             ConnWrite 7 (connectRequest ''example.com:443'' []),
             ReadResponse 7])
   \<and> client_status (trace_of (handleProxyTunneling (env_example (Inr 7) (Inr 99) (Hijacked 3))
                                 ''10.0.0.5:8080'' connect_example)) = None"
proof -
  have p: "parseProxyURL ''10.0.0.5:8080'' = Inr (''10.0.0.5:8080'', [], None)"
    by (rule parseProxyURL_no_at) simp
  have d: "net_Dial (env_example (Inr 7) (Inr c) (Hijacked 3)) ''10.0.0.5:8080'' = Inr 7" for c
    by (simp add: env_example_def)
  show ?thesis
    unfolding handleProxyTunneling_dialled[OF p d]
    by (simp add: env_example_def connect_example_def Let_def checkWriteHeaderCode_def
          informational_def trace_of_def)
qed

text \<open>
  Claim C4, amended. For every chained CONNECT request where the upstream answers with a
  status other than 200, no relay is started; and when that status is one that the response
  writer sends as the status of the response (101, or 201 to 999), the client receives
  exactly that status code.
\<close>

theorem upstream_rejection_surfaces_status:
  assumes "parseProxyURL proxyURL = Inr (proxyStr, auth, err)"
      and "net_Dial e proxyStr = Inr proxyConn"
      and "http_ReadResponse e proxyConn (connectRequest (Host r) auth) = Inr StatusCode"
      and "StatusCode \<noteq> 200"
  shows "relays (trace_of (handleProxyTunneling e proxyURL r)) = []
       \<and> ((StatusCode = 101 \<or> 200 < StatusCode) \<and> StatusCode \<le> 999 \<longrightarrow>
            (\<exists>tr. handleProxyTunneling e proxyURL r = Inr tr
               \<and> client_status tr = Some StatusCode
               \<and> statuses tr = [StatusCode] \<and> relays tr = []))"
proof -
  have 1: "relays (trace_of (handleProxyTunneling e proxyURL r)) = []"
    unfolding handleProxyTunneling_dialled[OF assms(1,2)]
    using assms(3,4)
    by (simp add: Let_def trace_of_def checkWriteHeaderCode_def)
  have 2: "(StatusCode = 101 \<or> 200 < StatusCode) \<and> StatusCode \<le> 999 \<longrightarrow>
            (\<exists>tr. handleProxyTunneling e proxyURL r = Inr tr
               \<and> client_status tr = Some StatusCode
               \<and> statuses tr = [StatusCode] \<and> relays tr = [])"
    unfolding handleProxyTunneling_dialled[OF assms(1,2)]
    using assms(3,4)
    by (auto simp: Let_def checkWriteHeaderCode_def informational_def)
  from 1 2 show ?thesis by blast
qed

text \<open>Claim C4, amended, for an upstream that answers 407 and one that answers 101.\<close>

theorem upstream_rejection_surfaces_status_witness:
  "parseProxyURL ''10.0.0.5:8080'' = Inr (''10.0.0.5:8080'', [], None)
   \<and> net_Dial (env_example (Inr 7) (Inr 407) (Hijacked 3)) ''10.0.0.5:8080'' = Inr 7
   \<and> http_ReadResponse (env_example (Inr 7) (Inr 407) (Hijacked 3)) 7
        (connectRequest (Host connect_example) []) = Inr 407
   \<and> (407::nat) \<noteq> 200 \<and> (200::nat) < 407 \<and> (407::nat) \<le> 999
   \<and> client_status (projr (handleProxyTunneling (env_example (Inr 7) (Inr 407) (Hijacked 3))
                              ''10.0.0.5:8080'' connect_example)) = Some 407
   \<and> statuses (projr (handleProxyTunneling (env_example (Inr 7) (Inr 407) (Hijacked 3))
                         ''10.0.0.5:8080'' connect_example)) = [407]
   \<and> relays (trace_of (handleProxyTunneling (env_example (Inr 7) (Inr 407) (Hijacked 3))
                          ''10.0.0.5:8080'' connect_example)) = []
   \<and> net_Dial (env_example (Inr 7) (Inr 101) (Hijacked 3)) ''10.0.0.5:8080'' = Inr 7
   \<and> http_ReadResponse (env_example (Inr 7) (Inr 101) (Hijacked 3)) 7
        (connectRequest (Host connect_example) []) = Inr 101
   \<and> (101::nat) \<noteq> 200 \<and> (101::nat) \<le> 999
   \<and> client_status (projr (handleProxyTunneling (env_example (Inr 7) (Inr 101) (Hijacked 3))
                              ''10.0.0.5:8080'' connect_example)) = Some 101
   \<and> relays (trace_of (handleProxyTunneling (env_example (Inr 7) (Inr 101) (Hijacked 3))
                          ''10.0.0.5:8080'' connect_example)) = []"
proof -
  let ?e = "env_example (Inr 7) (Inr 407) (Hijacked 3)"
  let ?f = "env_example (Inr 7) (Inr 101) (Hijacked 3)"
  have p: "parseProxyURL ''10.0.0.5:8080'' = Inr (''10.0.0.5:8080'', [], None)"
    by (rule parseProxyURL_no_at) simp
  have d: "net_Dial ?e ''10.0.0.5:8080'' = Inr 7"
    and a: "http_ReadResponse ?e 7 (connectRequest (Host connect_example) []) = Inr 407"
    and d': "net_Dial ?f ''10.0.0.5:8080'' = Inr 7"
    and a': "http_ReadResponse ?f 7 (connectRequest (Host connect_example) []) = Inr 101"
    by (simp_all add: env_example_def)
  have n: "(407::nat) \<noteq> 200" "(200::nat) < 407" "(407::nat) \<le> 999"
    and n': "(101::nat) \<noteq> 200" "(101::nat) \<le> 999"
    by simp_all
  note i = upstream_rejection_surfaces_status[OF p d a n(1)]
  note i' = upstream_rejection_surfaces_status[OF p d' a' n'(1)]
  from i n obtain tr where tr: "handleProxyTunneling ?e ''10.0.0.5:8080'' connect_example = Inr tr"
    and 1: "client_status tr = Some 407" "statuses tr = [407]" by blast
  from i have 2: "relays (trace_of (handleProxyTunneling ?e ''10.0.0.5:8080'' connect_example)) = []"
    by blast
  from i' n' obtain tr' where
    tr': "handleProxyTunneling ?f ''10.0.0.5:8080'' connect_example = Inr tr'"
    and 3: "client_status tr' = Some 101" by blast
  from i' have 4: "relays (trace_of (handleProxyTunneling ?f ''10.0.0.5:8080'' connect_example)) = []"
    by blast
  from 1 have s1: "client_status (projr (handleProxyTunneling ?e ''10.0.0.5:8080'' connect_example))
      = Some 407"
    "statuses (projr (handleProxyTunneling ?e ''10.0.0.5:8080'' connect_example)) = [407]"
    unfolding tr sum.sel by simp_all
  from 3 have s3: "client_status (projr (handleProxyTunneling ?f ''10.0.0.5:8080'' connect_example))
      = Some 101"
    unfolding tr' sum.sel by simp
  from p d a n s1 2 d' a' n' s3 4 show ?thesis by (intro conjI)
qed

text \<open>
  Claim C8 as stated, that a failed hijack is answered with 500, fails when \<^verbatim>\<open>Hijack()\<close>
  returns an error: the status codes given to the response writer are 200 and then 503.
\<close>

theorem hijack_error_gives_503_counterexample:
  "handleDirectTunneling (env_example (Inr 7) (Inr 200) (HijackError ''connection has been hijacked''))
       connect_example
     = Inr [Dial ''example.com:443'' (Some 10000000000), WriteHeader 200, HijackCall,
            HttpError ''connection has been hijacked'' 503]
   \<and> statuses (projr (handleDirectTunneling
        (env_example (Inr 7) (Inr 200) (HijackError ''connection has been hijacked''))
        connect_example)) = [200, 503]"
  by (simp add: handleDirectTunneling_def env_example_def connect_example_def Let_def
        time_Second_def)

text \<open>
  Claim C8, amended. For every CONNECT request, direct or chained, where taking over the
  client connection fails, no relay is started and the last action of the handler is an
  error response: 500 Internal Server Error when the response writer is no hijacker, 503
  Service Unavailable with the error's text when \<^verbatim>\<open>Hijack()\<close> returns an error.
\<close>

theorem hijack_failure_responses:
  "(net_DialTimeout e (Host r) (10 * time_Second) = Inr destConn \<and> hijacker e = NotHijacker \<longrightarrow>
      (\<exists>tr. handleDirectTunneling e r = Inr tr
         \<and> last tr = HttpError ''Hijacking not supported'' StatusInternalServerError
         \<and> relays tr = []))
   \<and> (net_DialTimeout e (Host r) (10 * time_Second) = Inr destConn
        \<and> hijacker e = HijackError msg \<longrightarrow>
      (\<exists>tr. handleDirectTunneling e r = Inr tr
         \<and> last tr = HttpError msg StatusServiceUnavailable
         \<and> relays tr = []))
   \<and> (parseProxyURL proxyURL = Inr (proxyStr, auth, err) \<and> net_Dial e proxyStr = Inr proxyConn
        \<and> http_ReadResponse e proxyConn (connectRequest (Host r) auth) = Inr 200
        \<and> hijacker e = NotHijacker \<longrightarrow>
      (\<exists>tr. handleProxyTunneling e proxyURL r = Inr tr
         \<and> last tr = HttpError ''Hijacking not supported'' StatusInternalServerError
         \<and> relays tr = []))
   \<and> (parseProxyURL proxyURL = Inr (proxyStr, auth, err) \<and> net_Dial e proxyStr = Inr proxyConn
        \<and> http_ReadResponse e proxyConn (connectRequest (Host r) auth) = Inr 200
        \<and> hijacker e = HijackError msg \<longrightarrow>
      (\<exists>tr. handleProxyTunneling e proxyURL r = Inr tr
         \<and> last tr = HttpError msg StatusServiceUnavailable
         \<and> relays tr = []))"
proof -
  have 1: "net_DialTimeout e (Host r) (10 * time_Second) = Inr destConn
        \<and> hijacker e = NotHijacker \<longrightarrow>
      (\<exists>tr. handleDirectTunneling e r = Inr tr
         \<and> last tr = HttpError ''Hijacking not supported'' StatusInternalServerError
         \<and> relays tr = [])"
    by (simp add: handleDirectTunneling_def Let_def)
  have 2: "net_DialTimeout e (Host r) (10 * time_Second) = Inr destConn
        \<and> hijacker e = HijackError msg \<longrightarrow>
      (\<exists>tr. handleDirectTunneling e r = Inr tr
         \<and> last tr = HttpError msg StatusServiceUnavailable
         \<and> relays tr = [])"
    by (simp add: handleDirectTunneling_def Let_def)
  have 3: "parseProxyURL proxyURL = Inr (proxyStr, auth, err) \<and> net_Dial e proxyStr = Inr proxyConn
        \<and> http_ReadResponse e proxyConn (connectRequest (Host r) auth) = Inr 200
        \<and> hijacker e = NotHijacker \<longrightarrow>
      (\<exists>tr. handleProxyTunneling e proxyURL r = Inr tr
         \<and> last tr = HttpError ''Hijacking not supported'' StatusInternalServerError
         \<and> relays tr = [])"
    by (simp add: handleProxyTunneling_dialled Let_def)
  have 4: "parseProxyURL proxyURL = Inr (proxyStr, auth, err) \<and> net_Dial e proxyStr = Inr proxyConn
        \<and> http_ReadResponse e proxyConn (connectRequest (Host r) auth) = Inr 200
        \<and> hijacker e = HijackError msg \<longrightarrow>
      (\<exists>tr. handleProxyTunneling e proxyURL r = Inr tr
         \<and> last tr = HttpError msg StatusServiceUnavailable
         \<and> relays tr = [])"
    by (simp add: handleProxyTunneling_dialled Let_def)
  from 1 2 3 4 show ?thesis by blast
qed

text \<open>
  Claim C8, amended, for a direct and a chained request, each with a response writer that is
  no hijacker and with a hijack that returns an error.
\<close>

theorem hijack_failure_responses_witness:
  "net_DialTimeout (env_example (Inr 7) (Inr 200) NotHijacker) (Host connect_example)
       (10 * time_Second) = Inr 7
   \<and> hijacker (env_example (Inr 7) (Inr 200) NotHijacker) = NotHijacker
   \<and> last (projr (handleDirectTunneling (env_example (Inr 7) (Inr 200) NotHijacker)
              connect_example)) = HttpError ''Hijacking not supported'' 500
   \<and> relays (projr (handleDirectTunneling (env_example (Inr 7) (Inr 200) NotHijacker)
              connect_example)) = []
   \<and> net_DialTimeout (env_example (Inr 7) (Inr 200) (HijackError ''hijacked''))
        (Host connect_example) (10 * time_Second) = Inr 7
   \<and> hijacker (env_example (Inr 7) (Inr 200) (HijackError ''hijacked''))
        = HijackError ''hijacked''
   \<and> last (projr (handleDirectTunneling
              (env_example (Inr 7) (Inr 200) (HijackError ''hijacked'')) connect_example))
        = HttpError ''hijacked'' 503
   \<and> relays (projr (handleDirectTunneling
              (env_example (Inr 7) (Inr 200) (HijackError ''hijacked'')) connect_example)) = []
   \<and> parseProxyURL ''alice:secret@10.0.0.5:8080''
       = Inr (''10.0.0.5:8080'', ''alice:secret'', None)
   \<and> net_Dial (env_example (Inr 7) (Inr 200) NotHijacker) ''10.0.0.5:8080'' = Inr 7
   \<and> http_ReadResponse (env_example (Inr 7) (Inr 200) NotHijacker) 7
        (connectRequest (Host connect_example) ''alice:secret'') = Inr 200
   \<and> last (projr (handleProxyTunneling (env_example (Inr 7) (Inr 200) NotHijacker)
              ''alice:secret@10.0.0.5:8080'' connect_example))
        = HttpError ''Hijacking not supported'' 500
   \<and> relays (projr (handleProxyTunneling (env_example (Inr 7) (Inr 200) NotHijacker)
              ''alice:secret@10.0.0.5:8080'' connect_example)) = []
   \<and> net_Dial (env_example (Inr 7) (Inr 200) (HijackError ''hijacked'')) ''10.0.0.5:8080''
        = Inr 7
   \<and> http_ReadResponse (env_example (Inr 7) (Inr 200) (HijackError ''hijacked'')) 7
        (connectRequest (Host connect_example) ''alice:secret'') = Inr 200
   \<and> last (projr (handleProxyTunneling
              (env_example (Inr 7) (Inr 200) (HijackError ''hijacked''))
              ''alice:secret@10.0.0.5:8080'' connect_example)) = HttpError ''hijacked'' 503
   \<and> relays (projr (handleProxyTunneling
              (env_example (Inr 7) (Inr 200) (HijackError ''hijacked''))
              ''alice:secret@10.0.0.5:8080'' connect_example)) = []"
proof -
  let ?e1 = "env_example (Inr 7) (Inr 200) NotHijacker"
  let ?e2 = "env_example (Inr 7) (Inr 200) (HijackError ''hijacked'')"
  have t1: "net_DialTimeout ?e1 (Host connect_example) (10 * time_Second) = Inr 7"
    and h1: "hijacker ?e1 = NotHijacker"
    and d1: "net_Dial ?e1 ''10.0.0.5:8080'' = Inr 7"
    and a1: "http_ReadResponse ?e1 7 (connectRequest (Host connect_example) ''alice:secret'')
              = Inr 200"
    by (simp_all add: env_example_def)
  have t2: "net_DialTimeout ?e2 (Host connect_example) (10 * time_Second) = Inr 7"
    and h2: "hijacker ?e2 = HijackError ''hijacked''"
    and d2: "net_Dial ?e2 ''10.0.0.5:8080'' = Inr 7"
    and a2: "http_ReadResponse ?e2 7 (connectRequest (Host connect_example) ''alice:secret'')
              = Inr 200"
    by (simp_all add: env_example_def)
  have p: "parseProxyURL ''alice:secret@10.0.0.5:8080''
       = Inr (''10.0.0.5:8080'', ''alice:secret'', None)" by (rule parse_alice)
  note i1 = hijack_failure_responses[of ?e1 connect_example 7 "''hijacked''"
      "''alice:secret@10.0.0.5:8080''" "''10.0.0.5:8080''" "''alice:secret''" None 7]
  note i2 = hijack_failure_responses[of ?e2 connect_example 7 "''hijacked''"
      "''alice:secret@10.0.0.5:8080''" "''10.0.0.5:8080''" "''alice:secret''" None 7]
  from i1 t1 h1 obtain tr1 where 1: "handleDirectTunneling ?e1 connect_example = Inr tr1"
    "last tr1 = HttpError ''Hijacking not supported'' 500" "relays tr1 = []" by blast
  from i2 t2 h2 obtain tr2 where 2: "handleDirectTunneling ?e2 connect_example = Inr tr2"
    "last tr2 = HttpError ''hijacked'' 503" "relays tr2 = []" by blast
  from i1 p d1 a1 h1 obtain tr3 where
    3: "handleProxyTunneling ?e1 ''alice:secret@10.0.0.5:8080'' connect_example = Inr tr3"
    "last tr3 = HttpError ''Hijacking not supported'' 500" "relays tr3 = []" by blast
  from i2 p d2 a2 h2 obtain tr4 where
    4: "handleProxyTunneling ?e2 ''alice:secret@10.0.0.5:8080'' connect_example = Inr tr4"
    "last tr4 = HttpError ''hijacked'' 503" "relays tr4 = []" by blast
  show ?thesis
    unfolding 1 2 3 4 sum.sel using t1 h1 d1 a1 t2 h2 d2 a2 p by blast
qed

text \<open>
  An established tunnel: after a successful dial (and, in chained mode, the upstream's 200)
  and a successful hijack, the client is answered 200 and two relay directions are started,
  each connection being the source of one and the destination of the other.
\<close>

lemma direct_tunnel_established:
  "net_DialTimeout e (Host r) (10 * time_Second) = Inr destConn \<Longrightarrow>
   hijacker e = Hijacked clientConn \<Longrightarrow>
   \<exists>tr. handleDirectTunneling e r = Inr tr
      \<and> statuses tr = [StatusOK]
      \<and> relays tr = [(destConn, clientConn), (clientConn, destConn)]"
  by (simp add: handleDirectTunneling_def Let_def)

lemma chained_tunnel_established:
  "parseProxyURL proxyURL = Inr (proxyStr, auth, err) \<Longrightarrow>
   net_Dial e proxyStr = Inr proxyConn \<Longrightarrow>
   http_ReadResponse e proxyConn (connectRequest (Host r) auth) = Inr 200 \<Longrightarrow>
   hijacker e = Hijacked clientConn \<Longrightarrow>
   \<exists>tr. handleProxyTunneling e proxyURL r = Inr tr
      \<and> statuses tr = [StatusOK]
      \<and> relays tr = [(clientConn, proxyConn), (proxyConn, clientConn)]"
  by (simp add: handleProxyTunneling_dialled Let_def)

section \<open>Properties of the forward handlers\<close>

text \<open>
  Claim C6 says that a forward handler forwards the method, headers and body of every
  non-CONNECT request to its destination and copies the response back. On the code this
  fails for every request: both forward handlers build their reverse proxy from a nil
  target, so the director dereferences nil before anything is handed to a transport. No
  request is forwarded and no response is copied back.
\<close>

theorem forward_handlers_dereference_nil_target:
  "handleDirectHTTP e r = Inl (NilPointerDereference, [])
   \<and> handleProxyHTTP e r = Inl (NilPointerDereference, [])"
  by (simp add: handleDirectHTTP_def handleProxyHTTP_def ServeHTTP_def
        NewSingleHostReverseProxy_def rewriteRequestURL_def Let_def)

text \<open>The same through the two routers, for a GET request.\<close>

lemma routers_on_get_example:
  "directRouter (env_example (Inr 7) (Inr 200) (Hijacked 3)) get_example
     = Inl (NilPointerDereference, [])
   \<and> proxyRouter (env_example (Inr 7) (Inr 200) (Hijacked 3)) ''10.0.0.5:8080'' get_example
     = Inl (NilPointerDereference, [])"
  by (simp add: directRouter_def proxyRouter_def MethodConnect_def get_example_def
        handleDirectHTTP_def handleProxyHTTP_def ServeHTTP_def
        NewSingleHostReverseProxy_def rewriteRequestURL_def Let_def)

section \<open>Properties of the relay\<close>

text \<open>
  Three facts about the copy loop: with a destination that takes every write in full it
  returns everything the source produced up to and including its first read with an error;
  it returns whenever some read of the source has an error, or whenever every write fails
  and some read has data; and whatever it returns extends the output by a prefix of what the
  source produced.
\<close>

lemma produced_one: "produced src i (Suc i) = fst (Read src i)"
  by (simp add: produced_def)

lemma produced_step: "i < k \<Longrightarrow> produced src i k = fst (Read src i) @ produced src (Suc i) k"
  by (simp add: produced_def upt_conv_Cons del: upt_Suc)

lemma copyBuffer_full_writes:
  assumes full: "\<And>j p. Write dst j p = (length p, None)"
      and ending: "snd (Read src k) = Some e"
      and before: "\<And>n. n < k \<Longrightarrow> snd (Read src n) = None"
      and "i \<le> k"
  shows "copyBuffer dst src i j out =
           Some (out @ produced src i (Suc k), if e = EOF then None else Some e)"
  using \<open>i \<le> k\<close>
proof (induction "k - i" arbitrary: i j out)
  case 0
  then have ik: "i = k" by simp
  obtain p where p: "Read src k = (p, Some e)"
    using ending by (cases "Read src k") auto
  show ?case
    unfolding ik
    by (subst copyBuffer.simps) (simp add: p full Let_def produced_one)
next
  case (Suc d)
  then have lt: "i < k" and d: "d = k - Suc i" and le: "Suc i \<le> k" by simp_all
  obtain p where p: "Read src i = (p, None)"
    using before[OF lt] by (cases "Read src i") auto
  have st: "produced src i (Suc k) = p @ produced src (Suc i) (Suc k)"
    using lt by (simp add: produced_step p)
  show ?case
    by (subst copyBuffer.simps) (simp add: p full Let_def Suc.hyps(1)[OF d le] st)
qed

lemma copyBuffer_returns:
  assumes ending: "snd (Read src k) \<noteq> None" and "i \<le> k"
  shows "\<exists>res. copyBuffer dst src i j out = Some res"
  using \<open>i \<le> k\<close>
proof (induction "k - i" arbitrary: i j out)
  case 0
  then have ik: "i = k" by simp
  obtain p e where p: "Read src k = (p, Some e)"
    using ending by (cases "Read src k") auto
  show ?case
    unfolding ik
    by (subst copyBuffer.simps) (simp add: p Let_def split: prod.splits)
next
  case (Suc d)
  then have lt: "i < k" and d: "d = k - Suc i" and le: "Suc i \<le> k" by simp_all
  obtain p er where p: "Read src i = (p, er)" by (cases "Read src i") auto
  show ?case
    using Suc.hyps(1)[OF d le]
    by (subst copyBuffer.simps) (simp add: p Let_def split: prod.splits option.splits)
qed


lemma copyBuffer_returns_on_write_error:
  assumes failing: "\<And>j p. snd (Write dst j p) \<noteq> None"
      and data: "fst (Read src k) \<noteq> []" and "i \<le> k"
  shows "\<exists>res. copyBuffer dst src i j out = Some res"
  using \<open>i \<le> k\<close>
proof (induction "k - i" arbitrary: i j out)
  case 0
  then have ik: "i = k" by simp
  obtain p er where p: "Read src k = (p, er)" by (cases "Read src k") auto
  with data have ne: "p \<noteq> []" by simp
  obtain nw ew where w: "Write dst j p = (nw, ew)" by (cases "Write dst j p") auto
  with failing[of j p] obtain e where ew: "ew = Some e" by auto
  show ?case
    unfolding ik
    by (subst copyBuffer.simps) (simp add: p ne w ew Let_def)
next
  case (Suc d)
  then have lt: "i < k" and d: "d = k - Suc i" and le: "Suc i \<le> k" by simp_all
  obtain p er where p: "Read src i = (p, er)" by (cases "Read src i") auto
  obtain nw ew where w: "Write dst j p = (nw, ew)" by (cases "Write dst j p") auto
  with failing[of j p] obtain e where ew: "ew = Some e" by auto
  show ?case
  proof (cases "p = []")
    case True
    then show ?thesis
      using Suc.hyps(1)[OF d le]
      by (subst copyBuffer.simps) (simp add: p split: option.splits)
  next
    case False
    then show ?thesis
      by (subst copyBuffer.simps) (simp add: p w ew Let_def)
  qed
qed

lemma transfer_Some_iff:
  "transfer destination source = Some (written, tr) \<longleftrightarrow>
     (\<exists>err. io_Copy destination source = Some (written, err))
     \<and> tr = [Close (rconn source), Close (wconn destination)]"
  by (auto simp: transfer_def split: option.splits)

lemma transfer_returns:
  "io_Copy destination source = Some res \<Longrightarrow>
     transfer destination source
       = Some (fst res, [Close (rconn source), Close (wconn destination)])"
  by (cases res) (simp add: transfer_def)

lemma produced_source_example: "produced source_example 0 3 = ''GET / HTTP/1.1''"
  by (simp add: produced_def source_example_def upt_conv_Cons del: upt_Suc)

lemma transfer_example:
  "transfer destination_example source_example = Some (''GET / HTTP/1.1'', [Close 3, Close 7])"
proof -
  have "copyBuffer destination_example source_example 0 0 []
          = Some ([] @ produced source_example 0 (Suc 2), if EOF = EOF then None else Some EOF)"
    by (rule copyBuffer_full_writes)
       (auto simp: destination_example_def source_example_def)
  then show ?thesis
    using produced_source_example
    by (simp add: transfer_def io_Copy_def numeral_3_eq_3 source_example_def
          destination_example_def)
qed



text \<open>
  Claim C9. When the copy of a relay direction is complete, the direction closes both its
  ends, the source first. The copy is complete, and both ends are closed, as soon as some
  read of the source reports the end of the stream or an error, and also when the
  destination refuses every write and the source has produced data.
\<close>

theorem transfer_closes_both_ends:
  "(transfer destination source = Some (written, tr) \<longrightarrow>
      closed tr = [rconn source, wconn destination])
   \<and> (snd (Read source k) \<noteq> None \<longrightarrow>
      map_option (closed \<circ> snd) (transfer destination source)
        = Some [rconn source, wconn destination])
   \<and> ((\<forall>j p. snd (Write destination j p) \<noteq> None) \<and> fst (Read source k) \<noteq> [] \<longrightarrow>
      map_option (closed \<circ> snd) (transfer destination source)
        = Some [rconn source, wconn destination])"
proof -
  have 1: "transfer destination source = Some (written, tr) \<longrightarrow>
      closed tr = [rconn source, wconn destination]"
    by (auto simp: transfer_Some_iff)
  have 2: "snd (Read source k) \<noteq> None \<longrightarrow>
      map_option (closed \<circ> snd) (transfer destination source)
        = Some [rconn source, wconn destination]"
  proof
    assume "snd (Read source k) \<noteq> None"
    from copyBuffer_returns[OF this, of 0 destination 0 "[]"]
    obtain res where "io_Copy destination source = Some res"
      by (auto simp: io_Copy_def)
    from transfer_returns[OF this]
    show "map_option (closed \<circ> snd) (transfer destination source)
        = Some [rconn source, wconn destination]" by simp
  qed
  have 3: "(\<forall>j p. snd (Write destination j p) \<noteq> None) \<and> fst (Read source k) \<noteq> [] \<longrightarrow>
      map_option (closed \<circ> snd) (transfer destination source)
        = Some [rconn source, wconn destination]"
  proof
    assume a: "(\<forall>j p. snd (Write destination j p) \<noteq> None) \<and> fst (Read source k) \<noteq> []"
    have "\<exists>res. copyBuffer destination source 0 0 [] = Some res"
      using a by (intro copyBuffer_returns_on_write_error[of destination source k]) auto
    then obtain res where "io_Copy destination source = Some res"
      by (auto simp: io_Copy_def)
    from transfer_returns[OF this]
    show "map_option (closed \<circ> snd) (transfer destination source)
        = Some [rconn source, wconn destination]" by simp
  qed
  from 1 2 3 show ?thesis by blast
qed

text \<open>
  Claim C9 for a source that ends, with a destination that takes everything and with one
  that is already closed.
\<close>

theorem transfer_closes_both_ends_witness:
  "transfer destination_example source_example = Some (''GET / HTTP/1.1'', [Close 3, Close 7])
   \<and> closed [Close 3, Close 7] = [3, 7]
   \<and> snd (Read source_example 2) \<noteq> None
   \<and> map_option (closed \<circ> snd) (transfer destination_example source_example) = Some [3, 7]
   \<and> (\<forall>j p. snd (Write broken_destination_example j p) \<noteq> None)
   \<and> fst (Read source_example 0) \<noteq> []
   \<and> map_option (closed \<circ> snd) (transfer broken_destination_example source_example)
        = Some [3, 7]"
proof -
  have e: "snd (Read source_example 2) \<noteq> None"
    and d: "fst (Read source_example 0) \<noteq> []"
    and r: "rconn source_example = 3"
    by (simp_all add: source_example_def)
  have w: "\<forall>j p. snd (Write broken_destination_example j p) \<noteq> None"
    and wb: "wconn broken_destination_example = 7"
    by (simp_all add: broken_destination_example_def)
  have wd: "wconn destination_example = 7" by (simp add: destination_example_def)
  from transfer_closes_both_ends[of destination_example source_example "''GET / HTTP/1.1''"
      "[Close 3, Close 7]" 2] transfer_example e
  have 1: "closed [Close 3, Close 7] = [rconn source_example, wconn destination_example]"
    and 2: "map_option (closed \<circ> snd) (transfer destination_example source_example)
        = Some [rconn source_example, wconn destination_example]" by blast+
  from transfer_closes_both_ends[of broken_destination_example source_example "[]" "[]" 0] w d
  have 3: "map_option (closed \<circ> snd) (transfer broken_destination_example source_example)
        = Some [rconn source_example, wconn broken_destination_example]" by blast
  from transfer_example 1 2 3 e d w show ?thesis
    unfolding r wb wd by blast
qed

end
